theory Spec2Isabelle
  imports Complex_Main
begin

section \<open>The Go runtime and library functions the parsers call\<close>

text \<open>
  Go strings are byte sequences; \<^typ>\<open>string\<close> is a list of 8-bit characters, so
  \<^const>\<open>length\<close> is Go's \<open>len\<close>.
\<close>

subsection \<open>Panics and slice indexing\<close>

datatype panic = IndexOutOfRange nat nat

text \<open>\<open>xs[i]\<close>: a run-time panic when \<open>i\<close> is not below \<open>len(xs)\<close>.\<close>

definition index :: "'a list \<Rightarrow> nat \<Rightarrow> panic + 'a" where
  "index xs i = (if i < length xs then Inr (xs ! i) else Inl (IndexOutOfRange i (length xs)))"

subsection \<open>bufio.Scanner with the default split function ScanLines\<close>

definition MaxScanTokenSize :: int where
  "MaxScanTokenSize = 64 * 1024"

text \<open>\<open>dropCR\<close> drops one terminal carriage return from the data.\<close>

definition dropCR :: "string \<Rightarrow> string" where
  "dropCR data = (if data \<noteq> [] \<and> last data = CHR 0x0D then butlast data else data)"

text \<open>
  \<open>scanFrom cur rest\<close>: the tokens that successive calls of \<open>Scan\<close> deliver when the
  bytes \<open>cur\<close> of the current line have been read and \<open>rest\<close> is still unread. A line is
  ended by a newline or by the end of the input; an empty final line is no token. When
  the buffer has grown to \<open>MaxScanTokenSize\<close> bytes without holding a newline, \<open>Scan\<close>
  returns false (the error \<open>ErrTooLong\<close> is kept in the scanner, and none of the parsers
  reads it), so the loop ends there.
\<close>

fun scanFrom :: "string \<Rightarrow> string \<Rightarrow> string list" where
  "scanFrom cur [] =
     (if cur = [] \<or> MaxScanTokenSize \<le> int (length cur) then [] else [dropCR cur])"
| "scanFrom cur (c # cs) =
     (if c = CHR 0x0A then
        (if MaxScanTokenSize \<le> int (length cur) then [] else dropCR cur # scanFrom [] cs)
      else scanFrom (cur @ [c]) cs)"

text \<open>The lines of \<open>for scanner.Scan() { line := scanner.Text() ... }\<close> over a string.\<close>

definition scanLines :: "string \<Rightarrow> string list" where
  "scanLines s = scanFrom [] s"

subsection \<open>Package strings\<close>

text \<open>\<open>strings.ReplaceAll(s, " ", "")\<close>, the only use of \<open>ReplaceAll\<close> in the program.\<close>

definition removeSpaces :: "string \<Rightarrow> string" where
  "removeSpaces s = filter (\<lambda>c. c \<noteq> CHR '' '') s"

text \<open>
  \<open>strings.Split(s, sep)\<close> for a separator of one byte (the program splits on \<open>"|"\<close>
  and \<open>":"\<close>): the pieces between the separators, never fewer than one.
\<close>

fun splitFrom :: "char \<Rightarrow> string \<Rightarrow> string \<Rightarrow> string list" where
  "splitFrom sep cur [] = [cur]"
| "splitFrom sep cur (c # cs) =
     (if c = sep then cur # splitFrom sep [] cs else splitFrom sep (cur @ [c]) cs)"

definition Split :: "string \<Rightarrow> char \<Rightarrow> string list" where
  "Split s sep = splitFrom sep [] s"

subsection \<open>Package strconv: errors\<close>

datatype errKind = ErrSyntax | ErrRange

text \<open>\<open>*strconv.NumError\<close>: the failing function, the input text and the reason.\<close>

datatype error = NumError string string errKind

definition syntaxError :: "string \<Rightarrow> string \<Rightarrow> error" where
  "syntaxError fn str = NumError fn str ErrSyntax"

definition rangeError :: "string \<Rightarrow> string \<Rightarrow> error" where
  "rangeError fn str = NumError fn str ErrRange"

text \<open>\<open>lower(c)\<close> is \<open>c | ('x' - 'X')\<close>: it sets bit 5 of the byte.\<close>

definition lower :: "char \<Rightarrow> int" where
  "lower c = (let n = of_char c in if (n div 32) mod 2 = 0 then n + 32 else n)"

definition isDigit :: "char \<Rightarrow> bool" where
  "isDigit c \<longleftrightarrow> 48 \<le> (of_char c :: int) \<and> (of_char c :: int) \<le> 57"

definition isHexLetter :: "char \<Rightarrow> bool" where
  "isHexLetter c \<longleftrightarrow> 97 \<le> lower c \<and> lower c \<le> 102"

definition isLetter :: "char \<Rightarrow> bool" where
  "isLetter c \<longleftrightarrow> 97 \<le> lower c \<and> lower c \<le> 122"

text \<open>
  \<open>underscoreOK\<close>: underscores may appear only between digits or between a base prefix
  and a digit. \<open>saw\<close> is the last character class seen.
\<close>

datatype saw = SawStart | SawDigit | SawUnderscore | SawOther

fun underscoreLoop :: "bool \<Rightarrow> saw \<Rightarrow> string \<Rightarrow> bool" where
  "underscoreLoop hex saw [] = (saw \<noteq> SawUnderscore)"
| "underscoreLoop hex saw (c # cs) =
     (if isDigit c \<or> (hex \<and> isHexLetter c) then underscoreLoop hex SawDigit cs
      else if c = CHR ''_'' then
        (if saw \<noteq> SawDigit then False else underscoreLoop hex SawUnderscore cs)
      else if saw = SawUnderscore then False
      else underscoreLoop hex SawOther cs)"

definition underscoreOK :: "string \<Rightarrow> bool" where
  "underscoreOK s0 =
     (let s = (if s0 \<noteq> [] \<and> (hd s0 = CHR ''-'' \<or> hd s0 = CHR ''+'') then tl s0 else s0)
      in if 2 \<le> length s \<and> s ! 0 = CHR ''0''
            \<and> (lower (s ! 1) = 98 \<or> lower (s ! 1) = 111 \<or> lower (s ! 1) = 120)
         then underscoreLoop (lower (s ! 1) = 120) SawDigit (drop 2 s)
         else underscoreLoop False SawStart s)"

subsection \<open>strconv.ParseUint(s, 0, 64)\<close>

definition maxUint64 :: int where
  "maxUint64 = 2 ^ 64 - 1"

text \<open>
  The digit loop of \<open>ParseUint\<close>: \<open>n\<close> is the number read so far. \<open>maxUint64 div base + 1\<close>
  is the cutoff, the smallest number whose product with the base overflows. With base 0
  an underscore is passed over. As in Go the result is a value with an error: 0 with a
  syntax error, the largest value with a range error.
\<close>

fun uintLoop :: "string \<Rightarrow> int \<Rightarrow> string \<Rightarrow> int \<Rightarrow> int \<times> error option" where
  "uintLoop s0 base [] n = (n, None)"
| "uintLoop s0 base (c # cs) n =
     (if c = CHR ''_'' then uintLoop s0 base cs n
      else if \<not> isDigit c \<and> \<not> isLetter c then (0, Some (syntaxError ''ParseUint'' s0))
      else
        let d = (if isDigit c then of_char c - 48 else lower c - 97 + 10) in
        if base \<le> d then (0, Some (syntaxError ''ParseUint'' s0))
        else if maxUint64 div base + 1 \<le> n then (maxUint64, Some (rangeError ''ParseUint'' s0))
        else if maxUint64 < n * base + d then (maxUint64, Some (rangeError ''ParseUint'' s0))
        else uintLoop s0 base cs (n * base + d))"

text \<open>
  Base 0: the base is taken from the prefix (\<open>0b\<close>, \<open>0o\<close>, \<open>0x\<close> when a digit can follow,
  a bare leading \<open>0\<close> for octal, else decimal). The Go code calls \<open>underscoreOK\<close> only
  when the loop has seen an underscore; \<open>underscoreOK\<close> holds of every text without one,
  so the model calls it always.
\<close>

definition ParseUint :: "string \<Rightarrow> int \<times> error option" where
  "ParseUint s =
     (if s = [] then (0, Some (syntaxError ''ParseUint'' s))
      else
        let (base, digits) =
          (if hd s = CHR ''0'' then
             (if 3 \<le> length s \<and> lower (s ! 1) = 98 then (2, drop 2 s)
              else if 3 \<le> length s \<and> lower (s ! 1) = 111 then (8, drop 2 s)
              else if 3 \<le> length s \<and> lower (s ! 1) = 120 then (16, drop 2 s)
              else (8, tl s))
           else (10, s));
            (n, err) = uintLoop s base digits 0
        in if err \<noteq> None then (n, err)
           else if \<not> underscoreOK s then (0, Some (syntaxError ''ParseUint'' s))
           else (n, None))"

subsection \<open>float64\<close>

text \<open>
  An IEEE 754 binary64 value: not-a-number, an infinity with its sign, or a finite
  number with its sign (\<open>True\<close> for negative, so that \<open>-0\<close> is a value of its own) and
  its magnitude, a rational number.
\<close>

datatype float64 = NaN | Infinity bool | Finite bool rat

text \<open>\<open>bitLen n\<close> is the number of binary digits of \<open>n\<close> (\<open>bits.Len\<close>).\<close>

function bitLen :: "int \<Rightarrow> int" where
  "bitLen n = (if n \<le> 0 then 0 else 1 + bitLen (n div 2))"
  by pat_completeness auto
termination
  by (relation "measure nat") auto

declare bitLen.simps [simp del]

text \<open>
  \<open>binade p q\<close> is the exponent \<open>e\<close> with \<open>2\<^sup>e \<le> p / q < 2\<^sup>e\<^sup>+\<^sup>1\<close>, for positive \<open>p\<close>
  and \<open>q\<close>.
\<close>

definition binade :: "int \<Rightarrow> int \<Rightarrow> int" where
  "binade p q =
     (let e = bitLen p - bitLen q
      in if (if 0 \<le> e then q * 2 ^ nat e \<le> p else q \<le> p * 2 ^ nat (- e)) then e else e - 1)"

text \<open>
  Rounding of the non-negative rational \<open>p / q\<close> (\<open>0 \<le> p\<close>, \<open>0 < q\<close>) to binary64, to
  nearest with ties to even: the result is a multiple \<open>m * 2\<^sup>e\<close> of the spacing \<open>2\<^sup>e\<close>
  of the binade of \<open>p / q\<close> (53 significant bits; \<open>2\<^sup>-\<^sup>1\<^sup>0\<^sup>7\<^sup>4\<close> for subnormal numbers).
  \<open>None\<close> is overflow: the rounded magnitude is not below \<open>2\<^sup>1\<^sup>0\<^sup>2\<^sup>4\<close>.
\<close>

definition round64 :: "int \<Rightarrow> int \<Rightarrow> rat option" where
  "round64 p q =
     (if p = 0 then Some 0
      else
        let e = max (binade p q - 52) (- 1074);
            num = (if 0 \<le> e then p else p * 2 ^ nat (- e));
            den = (if 0 \<le> e then q * 2 ^ nat e else q);
            m = num div den;
            r = num mod den;
            m' = (if den < 2 * r \<or> (2 * r = den \<and> odd m) then m + 1 else m)
        in if 971 < e \<or> (e = 971 \<and> 2 ^ 53 \<le> m') then None
           else Some (if 0 \<le> e then of_int (m' * 2 ^ nat e)
                      else of_int m' / of_int (2 ^ nat (- e))))"

text \<open>
  The conversion \<open>float64(n)\<close> of a \<open>uint64\<close>: the integer rounded to the precision of
  the type. A 64-bit integer never overflows binary64.
\<close>

definition float64_of_uint64 :: "int \<Rightarrow> float64" where
  "float64_of_uint64 n =
     (case round64 n 1 of Some v \<Rightarrow> Finite False v | None \<Rightarrow> Infinity False)"

subsection \<open>strconv.ParseFloat(s, 64)\<close>

definition asciiLower :: "char \<Rightarrow> char" where
  "asciiLower c =
     (if 65 \<le> (of_char c :: int) \<and> (of_char c :: int) \<le> 90
      then char_of (of_char c + 32 :: int) else c)"

fun commonPrefixLenIgnoreCase :: "string \<Rightarrow> string \<Rightarrow> nat" where
  "commonPrefixLenIgnoreCase (c # cs) (p # ps) =
     (if asciiLower c = p then Suc (commonPrefixLenIgnoreCase cs ps) else 0)"
| "commonPrefixLenIgnoreCase cs ps = 0"

text \<open>
  \<open>special\<close>: the value of a possibly signed \<open>inf\<close>, \<open>infinity\<close> or an unsigned \<open>nan\<close>
  (letter case ignored) at the start of \<open>s\<close>, with the number of bytes it takes.
\<close>

definition special :: "string \<Rightarrow> (float64 \<times> nat) option" where
  "special s =
     (case s of
        [] \<Rightarrow> None
      | c # cs \<Rightarrow>
          if c = CHR ''+'' \<or> c = CHR ''-'' \<or> c = CHR ''i'' \<or> c = CHR ''I'' then
            let signed = (c = CHR ''+'' \<or> c = CHR ''-'');
                n = commonPrefixLenIgnoreCase (if signed then cs else s) ''infinity'';
                n' = (if 3 < n \<and> n < 8 then 3 else n)
            in if n' = 3 \<or> n' = 8
               then Some (Infinity (c = CHR ''-''), (if signed then 1 else 0) + n')
               else None
          else if c = CHR ''n'' \<or> c = CHR ''N'' then
            (if commonPrefixLenIgnoreCase s ''nan'' = 3 then Some (NaN, 3) else None)
          else None)"

text \<open>
  The mantissa loop of \<open>readFloat\<close>. The model keeps every digit: \<open>mant\<close> is the digit
  string read as an integer in the base and \<open>nfrac\<close> counts the digits after the point,
  where the Go code keeps 19 digits, a truncation flag and the position of the point;
  both stand for the same number, and the Go conversion rounds that number correctly.
\<close>

fun mantLoop :: "int \<Rightarrow> bool \<Rightarrow> bool \<Rightarrow> int \<Rightarrow> int \<Rightarrow> string
    \<Rightarrow> bool \<times> int \<times> int \<times> string" where
  "mantLoop base sawdot sawdigits mant nfrac [] = (sawdigits, mant, nfrac, [])"
| "mantLoop base sawdot sawdigits mant nfrac (c # cs) =
     (if c = CHR ''_'' then mantLoop base sawdot sawdigits mant nfrac cs
      else if c = CHR ''.'' then
        (if sawdot then (sawdigits, mant, nfrac, c # cs)
         else mantLoop base True sawdigits mant nfrac cs)
      else if isDigit c then
        mantLoop base sawdot True (mant * base + (of_char c - 48))
          (if sawdot then nfrac + 1 else nfrac) cs
      else if base = 16 \<and> isHexLetter c then
        mantLoop base sawdot True (mant * 16 + (lower c - 97 + 10))
          (if sawdot then nfrac + 1 else nfrac) cs
      else (sawdigits, mant, nfrac, c # cs))"

text \<open>The digits of an exponent; the exponent stops growing once it has reached 10000.\<close>

fun expLoop :: "int \<Rightarrow> string \<Rightarrow> int \<times> string" where
  "expLoop e [] = (e, [])"
| "expLoop e (c # cs) =
     (if c = CHR ''_'' then expLoop e cs
      else if isDigit c then expLoop (if e < 10000 then e * 10 + (of_char c - 48) else e) cs
      else (e, c # cs))"

text \<open>
  The optional exponent: \<open>e\<close> or \<open>E\<close> for a decimal mantissa, \<open>p\<close> or \<open>P\<close> for a
  hexadecimal one, which must have an exponent.
\<close>

definition readExp :: "bool \<Rightarrow> string \<Rightarrow> (int \<times> string) option" where
  "readExp hex s =
     (if s \<noteq> [] \<and> lower (hd s) = (if hex then 112 else 101) then
        (case tl s of
           [] \<Rightarrow> None
         | d # ds \<Rightarrow>
             let (esign, t) = (if d = CHR ''+'' then (1, ds)
                               else if d = CHR ''-'' then (- 1, ds) else (1, d # ds))
             in if t = [] \<or> \<not> isDigit (hd t) then None
                else (let (e, rest) = expLoop 0 t in Some (e * esign, rest)))
      else if hex then None
      else Some (0, s))"

text \<open>
  \<open>readFloat\<close>: sign, optional \<open>0x\<close>, mantissa, exponent. The result is the sign, the
  exact magnitude as a fraction \<open>p / q\<close>, and the unread rest of the text. As in
  \<open>ParseUint\<close>, \<open>underscoreOK\<close> is applied to the text read whether or not an underscore was
  seen.
\<close>

definition readFloat :: "string \<Rightarrow> (bool \<times> int \<times> int \<times> string) option" where
  "readFloat s =
     (if s = [] then None
      else
        let neg = (hd s = CHR ''-'');
            s1 = (if hd s = CHR ''+'' \<or> hd s = CHR ''-'' then tl s else s);
            hex = (2 < length s1 \<and> s1 ! 0 = CHR ''0'' \<and> lower (s1 ! 1) = 120);
            (sawdigits, mant, nfrac, s2) =
               mantLoop (if hex then 16 else 10) False False 0 0 (if hex then drop 2 s1 else s1)
        in if \<not> sawdigits then None
           else (case readExp hex s2 of
                   None \<Rightarrow> None
                 | Some (e, rest) \<Rightarrow>
                     if \<not> underscoreOK (take (length s - length rest) s) then None
                     else
                       let b = (if hex then 2 else 10);
                           k = (if hex then e - 4 * nfrac else e - nfrac)
                       in Some (neg, (if 0 \<le> k then mant * b ^ nat k else mant),
                                     (if 0 \<le> k then 1 else b ^ nat (- k)), rest)))"

text \<open>
  \<open>ParseFloat\<close> accepts the text only if all of it was read. The number is rounded to
  the nearest binary64 value; on overflow the result is an infinity together with a
  range error.
\<close>

definition ParseFloat :: "string \<Rightarrow> float64 \<times> error option" where
  "ParseFloat s =
     (case special s of
        Some (val, n) \<Rightarrow>
          if n \<noteq> length s then (Finite False 0, Some (syntaxError ''ParseFloat'' s))
          else (val, None)
      | None \<Rightarrow>
          (case readFloat s of
             None \<Rightarrow> (Finite False 0, Some (syntaxError ''ParseFloat'' s))
           | Some (neg, p, q, rest) \<Rightarrow>
               if rest \<noteq> [] then (Finite False 0, Some (syntaxError ''ParseFloat'' s))
               else (case round64 p q of
                       Some v \<Rightarrow> (Finite neg v, None)
                     | None \<Rightarrow> (Infinity neg, Some (rangeError ''ParseFloat'' s)))))"

subsection \<open>Package regexp: the pieces the patterns of the program are made of\<close>

text \<open>
  The program's patterns are sequences of literals, the classes \<open>\s\<close> and \<open>\d\<close>, the
  wildcard \<open>.\<close>, greedy stars and one capture group. A piece takes the text at the
  current position and gives the text after its match, or \<open>None\<close>.
\<close>

text \<open>\<open>\s\<close> is the class \<open>[\t\n\f\r ]\<close>.\<close>

definition isSpace :: "char \<Rightarrow> bool" where
  "isSpace c \<longleftrightarrow> c = CHR 0x09 \<or> c = CHR 0x0A \<or> c = CHR 0x0C \<or> c = CHR 0x0D \<or> c = CHR '' ''"

fun lit :: "string \<Rightarrow> string \<Rightarrow> string option" where
  "lit [] s = Some s"
| "lit (c # cs) [] = None"
| "lit (c # cs) (x # xs) = (if c = x then lit cs xs else None)"

definition space1 :: "string \<Rightarrow> string option" where
  "space1 s = (case s of [] \<Rightarrow> None | c # cs \<Rightarrow> if isSpace c then Some cs else None)"

text \<open>
  \<open>\s*\<close> where the pattern goes on with a literal that does not start with white space,
  or with \<open>.*\<close> to the end of the pattern: the greedy star takes all the white space
  there is, and giving some of it back cannot make the rest of the pattern match.
\<close>

definition spaces :: "string \<Rightarrow> string option" where
  "spaces s = Some (dropWhile isSpace s)"




text \<open>
  A capture \<open>(?P<value>.*)\<close> at the end of a pattern: every character up to the first
  newline, or to the end of the text.
\<close>

definition restOfLine :: "string \<Rightarrow> string" where
  "restOfLine s = takeWhile (\<lambda>c. c \<noteq> CHR 0x0A) s"

text \<open>The pieces of a pattern one after the other.\<close>

fun matchSeq :: "(string \<Rightarrow> string option) list \<Rightarrow> string \<Rightarrow> string option" where
  "matchSeq [] s = Some s"
| "matchSeq (m # ms) s = (case m s of None \<Rightarrow> None | Some r \<Rightarrow> matchSeq ms r)"

text \<open>
  A pattern without \<open>^\<close> is tried at every position from the left; the leftmost match
  wins.
\<close>

fun findLeftmost :: "(string \<Rightarrow> 'a option) \<Rightarrow> string \<Rightarrow> 'a option" where
  "findLeftmost m [] = m []"
| "findLeftmost m (c # cs) = (case m (c # cs) of Some r \<Rightarrow> Some r | None \<Rightarrow> findLeftmost m cs)"

section \<open>The patterns of collector.go\<close>

text \<open>
  Each pattern has one capture group, \<open>value\<close>, which is group 1. A pattern is modelled by
  the function from a line to the text of that group in the result of
  \<open>FindStringSubmatch\<close>; \<open>None\<close> is the \<open>nil\<close> result of a line that does not match.
\<close>

text \<open>\<^verbatim>\<open>\sBoard\sMfg\sDate\s*:\s*(?P<value>.*)\<close>\<close>

definition fruBoardDateRegex :: "string \<Rightarrow> string option" where
  "fruBoardDateRegex line =
     map_option restOfLine
       (findLeftmost
          (matchSeq [space1, lit ''Board'', space1, lit ''Mfg'', space1, lit ''Date'',
                     spaces, lit '':'', spaces]) line)"

text \<open>
  \<^verbatim>\<open>^Chassis\s*Power\s*is\s*(?P<value>on|off*)\<close>: the group is \<open>on\<close>, or else \<open>of\<close> with
  all the \<open>f\<close> that follow.
\<close>

definition ipmiCurrentPowerRegex :: "string \<Rightarrow> string option" where
  "ipmiCurrentPowerRegex line =
     (case matchSeq [lit ''Chassis'', spaces, lit ''Power'', spaces, lit ''is'', spaces] line of
        None \<Rightarrow> None
      | Some r \<Rightarrow>
          if lit ''on'' r \<noteq> None then Some ''on''
          else (case lit ''of'' r of
                  None \<Rightarrow> None
                | Some r' \<Rightarrow> Some (''of'' @ takeWhile (\<lambda>c. c = CHR ''f'') r')))"
















text \<open>
  \<open>regexp.MatchString("ChassisIntru", name)\<close> and \<^verbatim>\<open>regexp.MatchString(`PS\dStatus*`, name)\<close>:
  the pattern is looked for anywhere in the name. Both patterns compile, so the error
  that \<open>MatchString\<close> returns with the result is always \<open>nil\<close>.
\<close>

definition matchChassisIntru :: "string \<Rightarrow> bool \<times> error option" where
  "matchChassisIntru name = (findLeftmost (lit ''ChassisIntru'') name \<noteq> None, None)"

definition digit1 :: "string \<Rightarrow> string option" where
  "digit1 s = (case s of [] \<Rightarrow> None | c # cs \<Rightarrow> if isDigit c then Some cs else None)"

definition matchPSStatus :: "string \<Rightarrow> bool \<times> error option" where
  "matchPSStatus name =
     (findLeftmost (matchSeq [lit ''PS'', digit1, lit ''Statu'']) name \<noteq> None, None)"

section \<open>The records\<close>

text \<open>
  \<open>fruData\<close>, \<open>lanData\<close> and \<open>bmcData\<close> are three Go types with the same two string
  fields, \<open>fwumData\<close> and \<open>dcmiPowerData\<close> two with the same fields \<open>Name\<close> and \<open>Value\<close>.
\<close>

record fruData =
  Name :: string
  Value :: string



record fwumData =
  Name :: string
  Value :: float64

type_synonym dcmiPowerData = fwumData

record sensorData =
  Name :: string
  Value :: float64
  Type :: string
  State :: string

section \<open>The loop over the lines\<close>

text \<open>
  One round of \<open>for scanner.Scan() { ... }\<close> takes the loop's variables to their next
  values (\<open>Next\<close>, also for \<open>continue\<close>), leaves the loop (\<open>Stop\<close>, for \<open>break\<close> and for a
  \<open>return result, err\<close> inside the loop, which returns what the statement after the loop
  returns) or panics (\<open>Fault\<close>).
\<close>

datatype 's flow = Next 's | Stop 's | Fault panic

fun forScan :: "(string \<Rightarrow> 's \<Rightarrow> 's flow) \<Rightarrow> string list \<Rightarrow> 's \<Rightarrow> panic + 's" where
  "forScan body [] st = Inr st"
| "forScan body (line # rest) st =
     (case body line st of
        Next st' \<Rightarrow> forScan body rest st'
      | Stop st' \<Rightarrow> Inr st'
      | Fault p \<Rightarrow> Inl p)"

section \<open>The parsers of the second generation of collector.go\<close>

subsection \<open>splitSensorOutput\<close>

definition sensorLine :: "string \<Rightarrow> sensorData list \<times> error option
    \<Rightarrow> (sensorData list \<times> error option) flow" where
  "sensorLine line st =
     (let (result, err) = st in
      if 0 < length line then
        let trimmedL = removeSpaces line;
            splittedL = Split trimmedL (CHR ''|'')
        in case index splittedL 0 of Inl p \<Rightarrow> Fault p | Inr name \<Rightarrow>
           case index splittedL 1 of Inl p \<Rightarrow> Fault p | Inr valueS \<Rightarrow>
           let (convValueS, convErr) = ParseUint valueS;
               (val, err', skip) =
                 (if valueS \<noteq> ''na'' \<and> convErr \<noteq> None then
                    (let (f, e) = ParseFloat valueS in (f, e, e \<noteq> None))
                  else if valueS \<noteq> ''na'' \<and> convErr = None then
                    (float64_of_uint64 convValueS, err, False)
                  else (NaN, err, False))
           in if skip then Next (result, err')
              else
                case index splittedL 2 of Inl p \<Rightarrow> Fault p | Inr ty \<Rightarrow>
                case index splittedL 3 of Inl p \<Rightarrow> Fault p | Inr state \<Rightarrow>
                Next (result @ [\<lparr>Name = name, Value = val, Type = ty, State = state\<rparr>], err')
      else Next (result, err))"

definition splitSensorOutput :: "string \<Rightarrow> panic + sensorData list \<times> error option" where
  "splitSensorOutput impitoolOutput = forScan sensorLine (scanLines impitoolOutput) ([], None)"

subsection \<open>splitDcmiPowerOutput\<close>

text \<open>
  One of the four \<open>if\<close> blocks of the loop body: \<open>m\<close> is the result of
  \<open>FindStringSubmatch\<close>. The inner loop over \<open>SubexpNames()\<close> does its work at the one
  group called \<open>value\<close>; its \<open>continue\<close> after a failed conversion ends it.
\<close>

definition dcmiField :: "string option \<Rightarrow> string
    \<Rightarrow> dcmiPowerData \<times> dcmiPowerData list \<times> error option
    \<Rightarrow> dcmiPowerData \<times> dcmiPowerData list \<times> error option" where
  "dcmiField m name st =
     (case m of
        None \<Rightarrow> st
      | Some v \<Rightarrow>
          let (data, result, err) = st;
              (f, err') = ParseFloat v;
              data' = data\<lparr>fwumData.Name := name, fwumData.Value := f\<rparr>
          in if err' \<noteq> None then (data', result, err')
             else (data', result @ [data'], err'))"



subsection \<open>splitFwumOutput\<close>



subsection \<open>splitBmcOutput\<close>



subsection \<open>splitFruOutput\<close>

definition fruLine :: "string \<Rightarrow> fruData list \<times> error option
    \<Rightarrow> (fruData list \<times> error option) flow" where
  "fruLine line st =
     (let (result, err) = st in
      if 0 < length line then
        (case fruBoardDateRegex line of
           Some v \<Rightarrow> Next (result @ [\<lparr>fruData.Name = ''BoardMfgDate'', fruData.Value = v\<rparr>], err)
         | None \<Rightarrow>
             let trimmedL = removeSpaces line;
                 splittedL = Split trimmedL (CHR '':'')
             in case index splittedL 0 of Inl p \<Rightarrow> Fault p | Inr name \<Rightarrow>
                case index splittedL 1 of Inl p \<Rightarrow> Fault p | Inr v \<Rightarrow>
                Next (result @ [\<lparr>fruData.Name = name, fruData.Value = v\<rparr>], err))
      else Next (result, err))"

definition splitFruOutput :: "string \<Rightarrow> panic + fruData list \<times> error option" where
  "splitFruOutput impitoolOutput = forScan fruLine (scanLines impitoolOutput) ([], None)"

subsection \<open>splitLANOutput\<close>



subsection \<open>getChassisPowerState\<close>

text \<open>
  \<open>m[1]\<close> for the result \<open>m\<close> of \<open>FindStringSubmatch\<close>: the \<open>nil\<close> slice of a line that
  does not match has length 0.
\<close>

definition submatch1 :: "string option \<Rightarrow> panic + string" where
  "submatch1 m = (case m of None \<Rightarrow> Inl (IndexOutOfRange 1 0) | Some v \<Rightarrow> Inr v)"

fun powerLoop :: "string list \<Rightarrow> panic + int \<times> error option" where
  "powerLoop [] = Inr (0, None)"
| "powerLoop (line # rest) =
     (if 0 < length line then
        (case submatch1 (ipmiCurrentPowerRegex line) of
           Inl p \<Rightarrow> Inl p
         | Inr v \<Rightarrow> if v = ''on'' then Inr (1, None) else powerLoop rest)
      else powerLoop rest)"

definition getChassisPowerState :: "string \<Rightarrow> panic + int \<times> error option" where
  "getChassisPowerState ipmitoolOutput = powerLoop (scanLines ipmitoolOutput)"

subsection \<open>collectSensorMonitoring\<close>

text \<open>
  The descriptors of the metrics that \<open>collectSensorMonitoring\<close> sends, a metric as
  \<open>prometheus.MustNewConstMetric\<close> builds it (descriptor, value, label values), and the
  entries that the function writes to the error log.
\<close>

datatype desc =
    sensorStateDesc | sensorValueDesc
  | chassisIntrusionDesc | chassisIntrusionStateDesc
  | chassisPowerDeviceDesc | chassisPowerDeviceStateDesc
  | fanSpeedDesc | fanSpeedStateDesc
  | temperatureDesc | temperatureStateDesc
  | voltageDesc | voltageStateDesc
  | currentDesc | currentStateDesc
  | powerDesc | powerStateDesc

record metric =
  mdesc :: desc
  mvalue :: float64
  mlabels :: "string list"

datatype logEntry = UnknownSensorState string | FailedToParse error

definition collectTypedSensor :: "desc \<Rightarrow> desc \<Rightarrow> float64 \<Rightarrow> sensorData \<Rightarrow> metric list" where
  "collectTypedSensor d stateDesc state data =
     [\<lparr>mdesc = d, mvalue = Value data, mlabels = [Name data]\<rparr>,
      \<lparr>mdesc = stateDesc, mvalue = state, mlabels = [Name data]\<rparr>]"

definition collectGenericSensor :: "float64 \<Rightarrow> sensorData \<Rightarrow> metric list" where
  "collectGenericSensor state data =
     [\<lparr>mdesc = sensorValueDesc, mvalue = Value data, mlabels = [Name data, Type data]\<rparr>,
      \<lparr>mdesc = sensorStateDesc, mvalue = state, mlabels = [Name data, Type data]\<rparr>]"

text \<open>The first \<open>switch\<close> of the loop body: the state and what is logged.\<close>

definition sensorState :: "string \<Rightarrow> float64 \<times> logEntry list" where
  "sensorState st =
     (if st = ''ok'' then (Finite False 0, [])
      else if st = ''cr'' then (Finite False 1, [])
      else if st = ''nr'' then (Finite False 2, [])
      else if st = ''nc'' then (Finite False 3, [])
      else if st = ''ns'' then (Finite False 4, [])
      else if st = ''0x0000'' then (Finite False 0, [])
      else if st = ''0x0100'' then (Finite False 1, [])
      else if st = ''na'' then (NaN, [])
      else (NaN, [UnknownSensorState st]))"

text \<open>The loop body for one record: the metrics sent to the channel and the log.\<close>

definition sensorMetrics :: "sensorData \<Rightarrow> metric list \<times> logEntry list" where
  "sensorMetrics data =
     (let (state, logs) = sensorState (State data) in
      (if Type data = ''RPM'' then
         collectTypedSensor fanSpeedDesc fanSpeedStateDesc state data
       else if Type data = ''degrees C'' then
         collectTypedSensor temperatureDesc temperatureStateDesc state data
       else if Type data = ''Ampers'' then
         collectTypedSensor currentDesc currentStateDesc state data
       else if Type data = ''Volts'' then
         collectTypedSensor voltageDesc voltageStateDesc state data
       else if Type data = ''Watts'' then
         collectTypedSensor powerDesc powerStateDesc state data
       else if Type data = ''discrete'' then
         (let (res, err) = matchChassisIntru (Name data) in
          if res then
            (if err \<noteq> None
             then collectTypedSensor chassisIntrusionDesc chassisIntrusionStateDesc state data
             else collectTypedSensor chassisIntrusionDesc chassisIntrusionStateDesc state data)
          else
            (let (res, err) = matchPSStatus (Name data) in
             if res then
               (if err \<noteq> None
                then collectTypedSensor chassisPowerDeviceDesc chassisPowerDeviceStateDesc state data
                else collectTypedSensor chassisPowerDeviceDesc chassisPowerDeviceStateDesc state data)
             else []))
       else collectGenericSensor state data,
       logs))"

text \<open>
  \<open>collectSensorMonitoring\<close> from the point where \<open>ipmitoolOutput\<close> has returned the
  text \<open>output\<close> without an error: the metrics sent, the log, and the two results.
\<close>

definition collectSensorMonitoring :: "string
    \<Rightarrow> panic + metric list \<times> logEntry list \<times> int \<times> error option" where
  "collectSensorMonitoring output =
     (case splitSensorOutput output of
        Inl p \<Rightarrow> Inl p
      | Inr (results, err) \<Rightarrow>
          (case err of
             Some e \<Rightarrow> Inr ([], [FailedToParse e], 0, err)
           | None \<Rightarrow>
               Inr (concat (map (\<lambda>data. fst (sensorMetrics data)) results),
                    concat (map (\<lambda>data. snd (sensorMetrics data)) results), 1, None)))"

section \<open>The first generation of collector.go\<close>

text \<open>
  The file holds an earlier version of the program as well. Its \<open>splitSensorOutput\<close>,
  \<open>getChassisPowerState\<close> and the loop body of its \<open>collectSensorMonitoring\<close> follow,
  translated from that version's text.
\<close>

definition sensorLine_gen1 :: "string \<Rightarrow> sensorData list \<times> error option
    \<Rightarrow> (sensorData list \<times> error option) flow" where
  "sensorLine_gen1 line st =
     (let (result, err) = st in
      if 0 < length line then
        let trimmedL = removeSpaces line;
            splittedL = Split trimmedL (CHR ''|'')
        in case index splittedL 0 of Inl p \<Rightarrow> Fault p | Inr name \<Rightarrow>
           case index splittedL 1 of Inl p \<Rightarrow> Fault p | Inr valueS \<Rightarrow>
           let (convValueS, convErr) = ParseUint valueS;
               (val, err', skip) =
                 (if valueS \<noteq> ''na'' \<and> convErr \<noteq> None then
                    (let (f, e) = ParseFloat valueS in (f, e, e \<noteq> None))
                  else if valueS \<noteq> ''na'' \<and> convErr = None then
                    (float64_of_uint64 convValueS, err, False)
                  else (NaN, err, False))
           in if skip then Next (result, err')
              else
                case index splittedL 2 of Inl p \<Rightarrow> Fault p | Inr ty \<Rightarrow>
                case index splittedL 3 of Inl p \<Rightarrow> Fault p | Inr state \<Rightarrow>
                Next (result @ [\<lparr>Name = name, Value = val, Type = ty, State = state\<rparr>], err')
      else Next (result, err))"

definition splitSensorOutput_gen1 :: "string \<Rightarrow> panic + sensorData list \<times> error option" where
  "splitSensorOutput_gen1 impitoolOutput =
     forScan sensorLine_gen1 (scanLines impitoolOutput) ([], None)"

fun powerLoop_gen1 :: "string list \<Rightarrow> panic + int \<times> error option" where
  "powerLoop_gen1 [] = Inr (1, None)"
| "powerLoop_gen1 (line # rest) =
     (if 0 < length line then
        (case submatch1 (ipmiCurrentPowerRegex line) of
           Inl p \<Rightarrow> Inl p
         | Inr v \<Rightarrow> if v = ''on'' then Inr (0, None) else powerLoop_gen1 rest)
      else powerLoop_gen1 rest)"

definition getChassisPowerState_gen1 :: "string \<Rightarrow> panic + int \<times> error option" where
  "getChassisPowerState_gen1 ipmitoolOutput = powerLoop_gen1 (scanLines ipmitoolOutput)"

definition sensorMetrics_gen1 :: "sensorData \<Rightarrow> metric list \<times> logEntry list" where
  "sensorMetrics_gen1 data =
     (let (state, logs) = sensorState (State data) in
      (if Type data = ''RPM'' then
         collectTypedSensor fanSpeedDesc fanSpeedStateDesc state data
       else if Type data = ''degrees C'' then
         collectTypedSensor temperatureDesc temperatureStateDesc state data
       else if Type data = ''Ampers'' then
         collectTypedSensor currentDesc currentStateDesc state data
       else if Type data = ''Volts'' then
         collectTypedSensor voltageDesc voltageStateDesc state data
       else if Type data = ''Watts'' then
         collectTypedSensor powerDesc powerStateDesc state data
       else if Type data = ''discrete'' then
         (let (res, err) = matchChassisIntru (Name data) in
          if res then
            (if err \<noteq> None
             then collectTypedSensor chassisIntrusionDesc chassisIntrusionStateDesc state data
             else [])
          else
            (let (res, err) = matchPSStatus (Name data) in
             if res then
               (if err \<noteq> None
                then collectTypedSensor chassisPowerDeviceDesc chassisPowerDeviceStateDesc state data
                else [])
             else []))
       else collectGenericSensor state data,
       logs))"

section \<open>Notions used in the statements\<close>

text \<open>
  The number that a text of hexadecimal digits stands for, digit by digit from the left.
\<close>

definition isHexDigit :: "char \<Rightarrow> bool" where
  "isHexDigit c \<longleftrightarrow> isDigit c \<or> isHexLetter c"

definition hexDigitVal :: "char \<Rightarrow> int" where
  "hexDigitVal c = (if isDigit c then of_char c - 48 else lower c - 97 + 10)"

fun hexFrom :: "int \<Rightarrow> string \<Rightarrow> int" where
  "hexFrom n [] = n"
| "hexFrom n (c # cs) = hexFrom (n * 16 + hexDigitVal c) cs"

definition hexVal :: "string \<Rightarrow> int" where
  "hexVal ds = hexFrom 0 ds"


text \<open>The text made of the given lines, with a newline between one line and the next.\<close>

fun joinLines :: "string list \<Rightarrow> string" where
  "joinLines [] = []"
| "joinLines [l] = l"
| "joinLines (l # l' # ls) = l @ [CHR 0x0A] @ joinLines (l' # ls)"

section \<open>Properties\<close>

subsection \<open>The state lookup\<close>

text \<open>
  C5: the lookup of the state code is a total function. \<open>ok\<close> gives 0, \<open>cr\<close> 1, \<open>nr\<close> 2,
  \<open>nc\<close> 3, \<open>ns\<close> 4, \<open>0x0000\<close> 0, \<open>0x0100\<close> 1 and \<open>na\<close> not-a-number, none of them with a
  log entry; every other text gives not-a-number and is logged as unknown. The result for
  \<open>na\<close> is not the ordinal 4.
\<close>

theorem sensorState_lookup:
  "sensorState ''ok'' = (Finite False 0, []) \<and>
   sensorState ''cr'' = (Finite False 1, []) \<and>
   sensorState ''nr'' = (Finite False 2, []) \<and>
   sensorState ''nc'' = (Finite False 3, []) \<and>
   sensorState ''ns'' = (Finite False 4, []) \<and>
   sensorState ''0x0000'' = (Finite False 0, []) \<and>
   sensorState ''0x0100'' = (Finite False 1, []) \<and>
   sensorState ''na'' = (NaN, []) \<and>
   fst (sensorState ''na'') \<noteq> Finite False 4 \<and>
   (st \<notin> {''ok'', ''cr'', ''nr'', ''nc'', ''ns'', ''0x0000'', ''0x0100'', ''na''}
      \<longrightarrow> sensorState st = (NaN, [UnknownSensorState st]))"
  by (simp add: sensorState_def)

theorem sensorState_lookup_witness:
  "''zz'' \<notin> {''ok'', ''cr'', ''nr'', ''nc'', ''ns'', ''0x0000'', ''0x0100'', ''na''} \<and>
   sensorState ''zz'' = (NaN, [UnknownSensorState ''zz''])"
  using sensorState_lookup [of "''zz''"] by simp

subsection \<open>The two generations of the sensor parser\<close>

lemma sensorLine_gen1_eq: "sensorLine_gen1 = sensorLine"
  by (intro ext) (simp add: sensorLine_gen1_def sensorLine_def)

text \<open>
  C10: the \<open>splitSensorOutput\<close> of the first generation and that of the second return
  the same records and the same error, or panic alike, on every input.
\<close>

theorem splitSensorOutput_generations_equal:
  "splitSensorOutput_gen1 impitoolOutput = splitSensorOutput impitoolOutput"
  by (simp add: splitSensorOutput_gen1_def splitSensorOutput_def sensorLine_gen1_eq)

theorem splitSensorOutput_generations_equal_witness:
  "splitSensorOutput_gen1 ''a|0x1F|discrete|ok'' =
     Inr ([\<lparr>Name = ''a'', Value = Finite False 31, Type = ''discrete'', State = ''ok''\<rparr>], None)"
proof -
  have "splitSensorOutput ''a|0x1F|discrete|ok'' =
     Inr ([\<lparr>Name = ''a'', Value = Finite False 31, Type = ''discrete'', State = ''ok''\<rparr>], None)"
    by code_simp
  then show ?thesis
    using splitSensorOutput_generations_equal [of "''a|0x1F|discrete|ok''"] by simp
qed

subsection \<open>Lines that do not match or are too short\<close>

lemma splitFrom_no_sep: "sep \<notin> set s \<Longrightarrow> splitFrom sep cur s = [cur @ s]"
  by (induction s arbitrary: cur) auto

lemma Split_no_sep: "sep \<notin> set s \<Longrightarrow> Split s sep = [s]"
  by (simp add: Split_def splitFrom_no_sep)

text \<open>
  What is behind the two panics: any line that is not empty and has no separator in it
  makes the sensor parser panic, and the FRU parser too unless it is the line of the
  board's date; a line that is not empty and does not match the pattern makes
  \<open>getChassisPowerState\<close> panic. Where every line that is not empty matches the pattern
  and none reports \<open>on\<close>, the function returns its default, 0 in the second generation
  and 1 in the first.
\<close>

lemma sensorLine_no_pipe_panics:
  "line \<noteq> [] \<Longrightarrow> CHR ''|'' \<notin> set line \<Longrightarrow> sensorLine line st = Fault (IndexOutOfRange 1 1)"
  by (cases st) (simp add: sensorLine_def removeSpaces_def Split_no_sep index_def)

lemma fruLine_no_colon_panics:
  "line \<noteq> [] \<Longrightarrow> fruBoardDateRegex line = None \<Longrightarrow> CHR '':'' \<notin> set line
     \<Longrightarrow> fruLine line st = Fault (IndexOutOfRange 1 1)"
  by (cases st) (simp add: fruLine_def removeSpaces_def Split_no_sep index_def)

lemma powerLoop_unmatched_panics:
  "line \<noteq> [] \<Longrightarrow> ipmiCurrentPowerRegex line = None
     \<Longrightarrow> powerLoop (line # rest) = Inl (IndexOutOfRange 1 0)"
  by (simp add: submatch1_def)

lemma powerLoop_default:
  "\<forall>l \<in> set ls. l = [] \<or> (\<exists>v. ipmiCurrentPowerRegex l = Some v \<and> v \<noteq> ''on'')
     \<Longrightarrow> powerLoop ls = Inr (0, None)"
  by (induction ls) (auto simp: submatch1_def)

lemma powerLoop_gen1_default:
  "\<forall>l \<in> set ls. l = [] \<or> (\<exists>v. ipmiCurrentPowerRegex l = Some v \<and> v \<noteq> ''on'')
     \<Longrightarrow> powerLoop_gen1 ls = Inr (1, None)"
  by (induction ls) (auto simp: submatch1_def)

text \<open>
  C2: the claim is that \<open>getChassisPowerState\<close> returns 0 without a fault on every text
  with no line that reports \<open>on\<close>, also when its lines do not match the pattern. On the
  one-line text \<open>foo\<close> the function panics instead: \<open>FindStringSubmatch\<close> gives \<open>nil\<close>
  and the code reads element 1 of it.
\<close>

theorem getChassisPowerState_unmatched_line_panics:
  "getChassisPowerState ''foo'' = Inl (IndexOutOfRange 1 0)"
  by code_simp

text \<open>
  C4: the claim is that a line with fewer than four fields, and a FRU line without a
  colon, are reported as malformed and never escape as an index fault. On the one-line
  text \<open>abc\<close> both \<open>splitSensorOutput\<close> and \<open>splitFruOutput\<close> panic: the line splits into
  one piece and the code reads piece 1.
\<close>

theorem short_line_panics:
  "splitSensorOutput ''abc'' = Inl (IndexOutOfRange 1 1) \<and>
   splitFruOutput ''abc'' = Inl (IndexOutOfRange 1 1)"
  by code_simp

subsection \<open>Facts about the library functions\<close>

text \<open>
  The scanner gives back the lines of a text: lines without a newline in them, not ending
  in a carriage return, shorter than the scanner's buffer, and the last of them not
  empty.
\<close>

lemma scanFrom_append:
  "CHR 0x0A \<notin> set l \<Longrightarrow> scanFrom cur (l @ rest) = scanFrom (cur @ l) rest"
  by (induction l arbitrary: cur) auto

lemma scanLines_joinLines:
  assumes "\<forall>l \<in> set ls. CHR 0x0A \<notin> set l \<and> dropCR l = l \<and> int (length l) < MaxScanTokenSize"
    and "ls \<noteq> [] \<longrightarrow> last ls \<noteq> []"
  shows "scanLines (joinLines ls) = ls"
  unfolding scanLines_def using assms
proof (induction ls rule: joinLines.induct)
  case 1
  then show ?case by simp
next
  case (2 l)
  then have "scanFrom [] (l @ []) = scanFrom ([] @ l) []"
    by (intro scanFrom_append) simp
  with 2 show ?case by simp
next
  case (3 l l' ls)
  then have "scanFrom [] (l @ (CHR 0x0A # joinLines (l' # ls))) =
      scanFrom ([] @ l) (CHR 0x0A # joinLines (l' # ls))"
    by (intro scanFrom_append) simp
  with 3 show ?case by simp
qed




subsection \<open>Conversion errors\<close>



subsection \<open>Sensors of the unit \<open>discrete\<close>\<close>

lemma lit_Some_iff: "lit p s = Some r \<longleftrightarrow> s = p @ r"
  by (induction p s rule: lit.induct) auto

lemma findLeftmost_Some_iff:
  "findLeftmost m s \<noteq> None \<longleftrightarrow> (\<exists>pre suf. s = pre @ suf \<and> m suf \<noteq> None)"
proof (induction s)
  case Nil
  then show ?case by simp
next
  case (Cons c cs)
  show ?case
  proof (cases "m (c # cs)")
    case None
    have "(\<exists>pre suf. c # cs = pre @ suf \<and> m suf \<noteq> None) \<longleftrightarrow>
          (\<exists>pre suf. cs = pre @ suf \<and> m suf \<noteq> None)"
    proof
      assume "\<exists>pre suf. c # cs = pre @ suf \<and> m suf \<noteq> None"
      then obtain pre suf where ps: "c # cs = pre @ suf" "m suf \<noteq> None" by blast
      with None have "pre \<noteq> []" by (cases pre) auto
      then obtain pre' where "pre = c # pre'" using ps(1) by (cases pre) auto
      with ps show "\<exists>pre suf. cs = pre @ suf \<and> m suf \<noteq> None" by auto
    next
      assume "\<exists>pre suf. cs = pre @ suf \<and> m suf \<noteq> None"
      then obtain pre suf where "cs = pre @ suf" "m suf \<noteq> None" by blast
      then have "c # cs = (c # pre) @ suf \<and> m suf \<noteq> None" by simp
      then show "\<exists>pre suf. c # cs = pre @ suf \<and> m suf \<noteq> None" by blast
    qed
    with None Cons.IH show ?thesis by simp
  next
    case (Some r)
    then have "c # cs = [] @ (c # cs) \<and> m (c # cs) \<noteq> None" by simp
    then have "\<exists>pre suf. c # cs = pre @ suf \<and> m suf \<noteq> None" by blast
    with Some show ?thesis by simp
  qed
qed

text \<open>The two name patterns say that the name has a certain piece of text in it.\<close>

lemma lit_matches_iff: "lit p s \<noteq> None \<longleftrightarrow> (\<exists>r. s = p @ r)"
  by (simp add: lit_Some_iff)

lemma matchChassisIntru_iff:
  "fst (matchChassisIntru name) \<longleftrightarrow> (\<exists>pre post. name = pre @ ''ChassisIntru'' @ post)"
  unfolding matchChassisIntru_def fst_conv findLeftmost_Some_iff lit_matches_iff
  by blast

lemma matchPSStatus_iff:
  "fst (matchPSStatus name) \<longleftrightarrow>
     (\<exists>pre d post. isDigit d \<and> name = pre @ ''PS'' @ [d] @ ''Statu'' @ post)"
proof -
  have m: "matchSeq [lit ''PS'', digit1, lit ''Statu''] suf \<noteq> None \<longleftrightarrow>
        (\<exists>d post. isDigit d \<and> suf = ''PS'' @ [d] @ ''Statu'' @ post)" for suf
  proof
    assume "matchSeq [lit ''PS'', digit1, lit ''Statu''] suf \<noteq> None"
    then obtain r1 r2 r3 where "lit ''PS'' suf = Some r1" "digit1 r1 = Some r2"
        "lit ''Statu'' r2 = Some r3"
      by (auto split: option.splits)
    then have "suf = ''PS'' @ r1" "r2 = ''Statu'' @ r3" "\<exists>d. isDigit d \<and> r1 = d # r2"
      by (auto simp: lit_Some_iff digit1_def split: list.splits if_splits)
    then show "\<exists>d post. isDigit d \<and> suf = ''PS'' @ [d] @ ''Statu'' @ post"
      by auto
  next
    assume "\<exists>d post. isDigit d \<and> suf = ''PS'' @ [d] @ ''Statu'' @ post"
    then obtain d post where "isDigit d" "suf = ''PS'' @ [d] @ ''Statu'' @ post" by blast
    then show "matchSeq [lit ''PS'', digit1, lit ''Statu''] suf \<noteq> None"
      by (simp add: digit1_def)
  qed
  show ?thesis
    unfolding matchPSStatus_def fst_conv findLeftmost_Some_iff m by auto
qed




subsection \<open>Not-a-number in the sensor parser\<close>

lemma char_of_int_eq_iff: "char_of (y::int) = c \<longleftrightarrow> y mod 256 = of_char c"
  by (simp add: char_of_eq_iff take_bit_eq_mod)

lemma of_char_int_range: "0 \<le> (of_char c :: int) \<and> (of_char c :: int) < 256"
proof -
  have "(of_char c :: int) = int (of_char c)"
    by (simp only: of_nat_of_char)
  moreover have "(of_char c :: nat) < 256"
    by simp
  ultimately show ?thesis
    by linarith
qed

lemma asciiLower_eq_iff:
  "asciiLower c = d \<longleftrightarrow>
     (if 65 \<le> (of_char c :: int) \<and> (of_char c :: int) \<le> 90
      then (of_char c :: int) + 32 = of_char d else c = d)"
  using of_char_int_range [of d] by (auto simp: asciiLower_def char_of_int_eq_iff)

lemma asciiLower_n: "asciiLower c = CHR ''n'' \<longleftrightarrow> c = CHR ''n'' \<or> c = CHR ''N''"
proof -
  have "(of_char c :: int) = of_char (CHR ''N'') \<longleftrightarrow> c = CHR ''N''"
    by (rule of_char_eq_iff)
  then have "(of_char c :: int) = 78 \<longleftrightarrow> c = CHR ''N''" by simp
  then show ?thesis by (auto simp: asciiLower_eq_iff)
qed

lemma asciiLower_a: "asciiLower c = CHR ''a'' \<longleftrightarrow> c = CHR ''a'' \<or> c = CHR ''A''"
proof -
  have "(of_char c :: int) = of_char (CHR ''A'') \<longleftrightarrow> c = CHR ''A''"
    by (rule of_char_eq_iff)
  then have "(of_char c :: int) = 65 \<longleftrightarrow> c = CHR ''A''" by simp
  then show ?thesis by (auto simp: asciiLower_eq_iff)
qed

lemma nan_texts_checked:
  "list_all (\<lambda>s. special s = Some (NaN, length s) \<and> snd (ParseUint s) \<noteq> None)
     [''nan'', ''naN'', ''nAn'', ''nAN'', ''Nan'', ''NaN'', ''NAn'', ''NAN'']"
  by code_simp

lemma commonPrefix_nan_iff:
  "commonPrefixLenIgnoreCase s ''nan'' = 3 \<and> length s = 3 \<longleftrightarrow>
     s \<in> {''nan'', ''naN'', ''nAn'', ''nAN'', ''Nan'', ''NaN'', ''NAn'', ''NAN''}"
proof
  assume a: "commonPrefixLenIgnoreCase s ''nan'' = 3 \<and> length s = 3"
  then obtain a b c where s: "s = [a, b, c]"
    by (auto simp: numeral_3_eq_3 length_Suc_conv)
  with a have "asciiLower a = CHR ''n''" "asciiLower b = CHR ''a''" "asciiLower c = CHR ''n''"
    by (auto split: if_splits)
  then show "s \<in> {''nan'', ''naN'', ''nAn'', ''nAN'', ''Nan'', ''NaN'', ''NAn'', ''NAN''}"
    unfolding s asciiLower_n asciiLower_a by auto
next
  assume "s \<in> {''nan'', ''naN'', ''nAn'', ''nAN'', ''Nan'', ''NaN'', ''NAn'', ''NAN''}"
  then show "commonPrefixLenIgnoreCase s ''nan'' = 3 \<and> length s = 3"
    by (auto simp: asciiLower_n asciiLower_a)
qed

lemma special_nan_iff:
  "special s = Some (NaN, length s) \<longleftrightarrow>
     s \<in> {''nan'', ''naN'', ''nAn'', ''nAN'', ''Nan'', ''NaN'', ''NAn'', ''NAN''}"
proof
  assume "special s = Some (NaN, length s)"
  then have "commonPrefixLenIgnoreCase s ''nan'' = 3 \<and> length s = 3"
    by (auto simp: special_def Let_def split: list.splits if_splits)
  then show "s \<in> {''nan'', ''naN'', ''nAn'', ''nAN'', ''Nan'', ''NaN'', ''NAn'', ''NAN''}"
    by (simp only: commonPrefix_nan_iff)
next
  assume "s \<in> {''nan'', ''naN'', ''nAn'', ''nAN'', ''Nan'', ''NaN'', ''NAn'', ''NAN''}"
  then show "special s = Some (NaN, length s)"
    using nan_texts_checked by auto
qed

lemma ParseUint_nan_fails:
  "s \<in> {''nan'', ''naN'', ''nAn'', ''nAN'', ''Nan'', ''NaN'', ''NAn'', ''NAN''}
     \<Longrightarrow> snd (ParseUint s) \<noteq> None"
  using nan_texts_checked by auto

text \<open>\<open>ParseFloat\<close> gives not-a-number for the three letters \<open>nan\<close> in any case only.\<close>

lemma ParseFloat_NaN_iff:
  assumes "snd (ParseFloat s) = None"
  shows "fst (ParseFloat s) = NaN \<longleftrightarrow>
     s \<in> {''nan'', ''naN'', ''nAn'', ''nAN'', ''Nan'', ''NaN'', ''NAn'', ''NAN''}"
proof (cases "special s")
  case None
  then have "fst (ParseFloat s) \<noteq> NaN"
    by (auto simp: ParseFloat_def split: option.splits)
  moreover have "special s \<noteq> Some (NaN, length s)"
    using None by simp
  ultimately show ?thesis
    by (simp only: special_nan_iff)
next
  case (Some vn)
  obtain v n where vn: "vn = (v, n)" by (cases vn)
  with Some assms have n: "n = length s"
    by (auto simp: ParseFloat_def split: if_splits)
  with Some vn have "fst (ParseFloat s) = v"
    by (simp add: ParseFloat_def)
  moreover have "v = NaN \<longleftrightarrow> special s = Some (NaN, length s)"
    using Some vn n by auto
  ultimately show ?thesis
    by (simp only: special_nan_iff)
qed

lemma float64_of_uint64_not_NaN: "float64_of_uint64 n \<noteq> NaN"
  by (simp add: float64_of_uint64_def split: option.splits)

text \<open>
  C1, as the code has it: the value of the record that a line yields is not-a-number
  if and only if the value field, with the spaces taken out, is \<open>na\<close> or is \<open>nan\<close> in
  any letter case (a text that \<open>ParseFloat\<close> reads as not-a-number). Nothing is assumed
  about the other fields.
\<close>

theorem sensor_value_nan_iff:
  assumes "sensorLine line (result, err) = Next (result @ [d], err')"
  shows "Value d = NaN \<longleftrightarrow>
     Split (removeSpaces line) (CHR ''|'') ! 1 \<in>
       {''na'', ''nan'', ''naN'', ''nAn'', ''nAN'', ''Nan'', ''NaN'', ''NAn'', ''NAN''}"
proof -
  let ?sp = "Split (removeSpaces line) (CHR ''|'')"
  let ?v = "?sp ! 1"
  let ?nan = "{''nan'', ''naN'', ''nAn'', ''nAN'', ''Nan'', ''NaN'', ''NAn'', ''NAN''}"
  obtain n ce where pu: "ParseUint ?v = (n, ce)" by (cases "ParseUint ?v")
  obtain f fe where pf: "ParseFloat ?v = (f, fe)" by (cases "ParseFloat ?v")
  from assms have ne: "line \<noteq> []"
    by (auto simp: sensorLine_def)
  from assms ne have len: "1 < length ?sp"
    by (auto simp: sensorLine_def Let_def index_def split: if_splits)
  from assms ne len pu pf have val:
    "Value d = (if ?v \<noteq> ''na'' \<and> ce \<noteq> None then f
                else if ?v \<noteq> ''na'' \<and> ce = None then float64_of_uint64 n else NaN)"
    and skip: "?v \<noteq> ''na'' \<and> ce \<noteq> None \<longrightarrow> fe = None"
    by (auto simp: sensorLine_def Let_def index_def split: if_splits)
  show ?thesis
  proof (cases "?v = ''na''")
    case True
    with val show ?thesis by simp
  next
    case na: False
    show ?thesis
    proof (cases "ce = None")
      case True
      with pu have "snd (ParseUint ?v) = None" by simp
      with ParseUint_nan_fails [of ?v] have "?v \<notin> ?nan" by blast
      with val na True show ?thesis
        by (simp add: float64_of_uint64_not_NaN)
    next
      case False
      with skip na pf have "snd (ParseFloat ?v) = None" by simp
      from ParseFloat_NaN_iff [OF this] pf have "f = NaN \<longleftrightarrow> ?v \<in> ?nan" by simp
      with val na False show ?thesis by simp
    qed
  qed
qed

theorem sensor_value_nan_iff_witness:
  "sensorLine ''CPU Temp | na | degrees C | na'' ([], None) =
     Next ([] @ [\<lparr>Name = ''CPUTemp'', Value = NaN, Type = ''degreesC'', State = ''na''\<rparr>], None) \<and>
   Value \<lparr>Name = ''CPUTemp'', Value = NaN, Type = ''degreesC'', State = ''na''\<rparr> = NaN \<and>
   Split (removeSpaces ''CPU Temp | na | degrees C | na'') (CHR ''|'') ! 1 = ''na''"
proof -
  have run: "sensorLine ''CPU Temp | na | degrees C | na'' ([], None) =
     Next ([] @ [\<lparr>Name = ''CPUTemp'', Value = NaN, Type = ''degreesC'', State = ''na''\<rparr>], None)"
    by code_simp
  have field: "Split (removeSpaces ''CPU Temp | na | degrees C | na'') (CHR ''|'') ! 1 = ''na''"
    by code_simp
  from sensor_value_nan_iff [OF run] run field show ?thesis by simp
qed

theorem sensor_value_nan_counterexample:
  "splitSensorOutput ''Temp | nan | degrees C | ok'' =
     Inr ([\<lparr>Name = ''Temp'', Value = NaN, Type = ''degreesC'', State = ''ok''\<rparr>], None) \<and>
   Split (removeSpaces ''Temp | nan | degrees C | ok'') (CHR ''|'') ! 1 \<noteq> ''na''"
  by code_simp

subsection \<open>Hexadecimal values\<close>

lemma bitLen_nonneg: "0 \<le> bitLen n"
  by (induction n rule: bitLen.induct) (simp add: bitLen.simps)

lemma bitLen_le: "n < 2 ^ k \<Longrightarrow> bitLen n \<le> int k"
proof (induction k arbitrary: n)
  case 0
  then show ?case by (simp add: bitLen.simps)
next
  case (Suc k)
  show ?case
  proof (cases "n \<le> 0")
    case True
    then show ?thesis by (simp add: bitLen.simps)
  next
    case False
    from Suc.prems have "n div 2 < 2 ^ k" by simp
    then have "bitLen (n div 2) \<le> int k" by (rule Suc.IH)
    with False show ?thesis by (subst bitLen.simps) simp
  qed
qed

lemma binade_le: "binade n 1 \<le> bitLen n - 1"
proof -
  have "bitLen 1 = 1" by code_simp
  then show ?thesis by (simp add: binade_def Let_def)
qed

text \<open>An integer below \<open>2\<^sup>5\<^sup>3\<close>, and \<open>2\<^sup>5\<^sup>3\<close> itself, is converted without rounding.\<close>

lemma round64_exact:
  assumes "0 \<le> n" "n \<le> 2 ^ 53"
  shows "round64 n 1 = Some (of_int n)"
proof (cases "n = 2 ^ 53")
  case True
  have "round64 (2 ^ 53) 1 = Some (of_int (2 ^ 53))" by code_simp
  with True show ?thesis by simp
next
  case False
  with assms have "n < 2 ^ 53" by simp
  then have "bitLen n \<le> 53" using bitLen_le [of n 53] by simp
  with binade_le [of n] have e: "max (binade n 1 - 52) (- 1074) \<le> 0" by simp
  show ?thesis
  proof (cases "max (binade n 1 - 52) (- 1074) = 0")
    case True
    then show ?thesis by (simp add: round64_def Let_def)
  next
    case False
    with e have "max (binade n 1 - 52) (- 1074) < 0" by simp
    then show ?thesis by (simp add: round64_def Let_def)
  qed
qed

lemma float64_of_uint64_exact:
  "0 \<le> n \<Longrightarrow> n \<le> 2 ^ 53 \<Longrightarrow> float64_of_uint64 n = Finite False (of_int n)"
  by (simp add: float64_of_uint64_def round64_exact)

lemma isHexLetter_isLetter: "isHexLetter c \<Longrightarrow> isLetter c"
  by (simp add: isHexLetter_def isLetter_def)

lemma isHexDigit_not_underscore: "isHexDigit c \<Longrightarrow> c \<noteq> CHR ''_''"
  by (auto simp: isHexDigit_def isDigit_def isHexLetter_def lower_def)

lemma hexDigitVal_range: "isHexDigit c \<Longrightarrow> 0 \<le> hexDigitVal c \<and> hexDigitVal c < 16"
  by (auto simp: isHexDigit_def hexDigitVal_def isDigit_def isHexLetter_def)

lemma hexFrom_mono: "\<forall>c \<in> set ds. isHexDigit c \<Longrightarrow> 0 \<le> n \<Longrightarrow> n \<le> hexFrom n ds"
proof (induction ds arbitrary: n)
  case Nil
  then show ?case by simp
next
  case (Cons c ds)
  from Cons.prems have d: "0 \<le> hexDigitVal c" by (simp add: hexDigitVal_range)
  with Cons.prems have "0 \<le> n * 16 + hexDigitVal c" by simp
  with Cons have "n * 16 + hexDigitVal c \<le> hexFrom (n * 16 + hexDigitVal c) ds" by simp
  with d Cons.prems show ?case by simp
qed

lemma uintLoop_hex:
  "\<forall>c \<in> set ds. isHexDigit c \<Longrightarrow> 0 \<le> n \<Longrightarrow> hexFrom n ds \<le> maxUint64
     \<Longrightarrow> uintLoop s0 16 ds n = (hexFrom n ds, None)"
proof (induction ds arbitrary: n)
  case Nil
  then show ?case by simp
next
  case (Cons c ds)
  let ?n' = "n * 16 + hexDigitVal c"
  from Cons.prems have hc: "isHexDigit c" and hds: "\<forall>c \<in> set ds. isHexDigit c" by simp_all
  from hc have d: "0 \<le> hexDigitVal c" "hexDigitVal c < 16" by (simp_all add: hexDigitVal_range)
  with Cons.prems have n': "0 \<le> ?n'" by simp
  from hexFrom_mono [OF hds n'] Cons.prems have le: "?n' \<le> maxUint64" by simp
  with d Cons.prems have cut: "\<not> maxUint64 div 16 + 1 \<le> n" by (simp add: maxUint64_def)
  from Cons.prems have rest: "hexFrom ?n' ds \<le> maxUint64" by simp
  have step: "uintLoop s0 16 (c # ds) n = uintLoop s0 16 ds ?n'"
    using hc d le cut isHexDigit_not_underscore [OF hc]
    by (auto simp: hexDigitVal_def isHexDigit_def isHexLetter_isLetter)
  show ?case
    unfolding step using Cons.IH [OF hds n' rest] by simp
qed

lemma underscoreLoop_hex:
  "\<forall>c \<in> set ds. isHexDigit c \<Longrightarrow> underscoreLoop True SawDigit ds"
  by (induction ds) (auto simp: isHexDigit_def)

lemma lower_x: "lower (CHR ''x'') = 120"
  by code_simp

lemma ParseUint_hex:
  assumes "ds \<noteq> []" "\<forall>c \<in> set ds. isHexDigit c" "hexVal ds < 2 ^ 64"
  shows "ParseUint (''0x'' @ ds) = (hexVal ds, None)"
proof -
  from assms(3) have "hexFrom 0 ds \<le> maxUint64"
    by (simp add: hexVal_def maxUint64_def)
  with assms(2) have loop: "uintLoop (''0x'' @ ds) 16 ds 0 = (hexVal ds, None)"
    by (simp add: uintLoop_hex hexVal_def)
  from assms(1) have len: "3 \<le> length (''0x'' @ ds)"
    by (cases ds) simp_all
  have us: "underscoreOK (''0x'' @ ds)"
    using assms(2) by (simp add: underscoreOK_def lower_x underscoreLoop_hex)
  show ?thesis
    using len loop us by (simp add: ParseUint_def lower_x)
qed

lemma hexVal_nonneg: "\<forall>c \<in> set ds. isHexDigit c \<Longrightarrow> 0 \<le> hexVal ds"
  using hexFrom_mono [of ds 0] by (simp add: hexVal_def)

text \<open>
  C7, as the code has it: for a line of at least four fields whose value field is \<open>0x\<close>
  and hexadecimal digits, the value of the record is the number of the literal converted
  as \<open>float64(n)\<close> converts it, when that number fits 64 bits; the conversion is exact,
  with no rounding, when the number is at most \<open>2\<^sup>5\<^sup>3\<close>.
\<close>

theorem hex_value_exact:
  assumes "Split (removeSpaces line) (CHR ''|'') = name # (''0x'' @ ds) # ty # state # others"
    and "ds \<noteq> []" and "\<forall>c \<in> set ds. isHexDigit c"
  shows "(hexVal ds < 2 ^ 64 \<longrightarrow>
            sensorLine line (result, err) =
              Next (result @ [\<lparr>Name = name, Value = float64_of_uint64 (hexVal ds),
                                Type = ty, State = state\<rparr>], err)) \<and>
         (hexVal ds \<le> 2 ^ 53 \<longrightarrow>
            float64_of_uint64 (hexVal ds) = Finite False (of_int (hexVal ds)))"
proof (intro conjI impI)
  assume fits: "hexVal ds < 2 ^ 64"
  have ne: "line \<noteq> []"
  proof
    assume "line = []"
    then have "Split (removeSpaces line) (CHR ''|'') = [[]]"
      by (simp add: removeSpaces_def Split_def)
    with assms(1) show False by simp
  qed
  have pu: "ParseUint (''0x'' @ ds) = (hexVal ds, None)"
    using assms(2,3) fits by (rule ParseUint_hex)
  have na: "''0x'' @ ds \<noteq> ''na''" by simp
  show "sensorLine line (result, err) =
      Next (result @ [\<lparr>Name = name, Value = float64_of_uint64 (hexVal ds),
                        Type = ty, State = state\<rparr>], err)"
    using ne pu na by (simp add: sensorLine_def assms(1) index_def Let_def del: append.simps)
next
  assume "hexVal ds \<le> 2 ^ 53"
  with hexVal_nonneg [OF assms(3)]
  show "float64_of_uint64 (hexVal ds) = Finite False (of_int (hexVal ds))"
    by (simp add: float64_of_uint64_exact)
qed

theorem hex_value_exact_witness:
  "sensorLine ''Chassis Intru | 0x1F | discrete | 0x0000| na'' ([], None) =
     Next ([\<lparr>Name = ''ChassisIntru'', Value = Finite False 31, Type = ''discrete'',
             State = ''0x0000''\<rparr>], None)"
proof -
  have sp: "Split (removeSpaces ''Chassis Intru | 0x1F | discrete | 0x0000| na'') (CHR ''|'') =
      ''ChassisIntru'' # (''0x'' @ ''1F'') # ''discrete'' # ''0x0000'' # [''na'']"
    by code_simp
  have ne: "''1F'' \<noteq> []" by simp
  have hd: "\<forall>c \<in> set ''1F''. isHexDigit c" by code_simp
  have v: "hexVal ''1F'' = 31" by code_simp
  from hex_value_exact [OF sp ne hd, of "[]" None] v show ?thesis by simp
qed

theorem hex_value_rounded_counterexample:
  "splitSensorOutput ''Status | 0x20000000000001 | discrete | ok'' =
     Inr ([\<lparr>Name = ''Status'', Value = Finite False 9007199254740992, Type = ''discrete'',
            State = ''ok''\<rparr>], None) \<and>
   hexVal ''20000000000001'' = 9007199254740993"
  by code_simp

subsection \<open>The loop over the lines appends in line order\<close>



subsection \<open>The DCMI patterns\<close>







lemma dcmiField_None_records: "fst (snd (dcmiField None name (data, [], e))) = []"
  by (simp add: dcmiField_def)









subsection \<open>Blank lines and the order of the records\<close>









end
